theory Spec2Isabelle
  imports Complex_Main "HOL-Library.Word" "HOL-Library.AList"
begin

section \<open>Python values used by the library\<close>

text \<open>
  Python integers are unbounded and are modelled by \<open>int\<close>. Text is \<open>string\<close>; every
  wire token of the protocol is ASCII. An exception raised by the source is a value of
  \<open>py_error\<close>, returned as \<open>Inl\<close> of a sum.
\<close>

datatype py_error =
    KeyError string
  | KeyErrorId int
  | IndexError
  | ValueError
  | StructError
  | InvalidOperation

subsection \<open>\<open>str(int)\<close>: decimal text of an integer\<close>

definition digit_char :: "nat \<Rightarrow> char" where
  "digit_char d = char_of (48 + d)"

fun str_nat :: "nat \<Rightarrow> string" where
  "str_nat n = (if n < 10 then [digit_char n] else str_nat (n div 10) @ [digit_char (n mod 10)])"

declare str_nat.simps [simp del]

definition py_str :: "int \<Rightarrow> string" where
  "py_str i = (if i < 0 then CHR ''-'' # str_nat (nat (- i)) else str_nat (nat i))"

subsection \<open>\<open>int(str)\<close>: parsing decimal text\<close>

text \<open>
  Python's \<open>int(s)\<close> on text strips surrounding whitespace, accepts one optional sign,
  then needs a digit first and digits after it, where a single underscore may stand
  between two digits; anything else raises \<open>ValueError\<close>. The model covers ASCII text,
  which is what the wire carries.
\<close>

definition is_digit :: "char \<Rightarrow> bool" where
  "is_digit c = (48 \<le> (of_char c :: nat) \<and> (of_char c :: nat) \<le> 57)"

definition digit_val :: "char \<Rightarrow> nat" where
  "digit_val c = of_char c - 48"

definition is_space :: "char \<Rightarrow> bool" where
  "is_space c = ((of_char c :: nat) \<in> {9, 10, 11, 12, 13, 28, 29, 30, 31, 32})"

definition strip :: "string \<Rightarrow> string" where
  "strip s = rev (dropWhile is_space (rev (dropWhile is_space s)))"

fun digits_value :: "nat \<Rightarrow> string \<Rightarrow> nat option" where
  "digits_value acc [] = Some acc"
| "digits_value acc (c # cs) =
     (if is_digit c then digits_value (10 * acc + digit_val c) cs
      else if c = CHR ''_'' \<and> cs \<noteq> [] \<and> is_digit (hd cs) then digits_value acc cs
      else None)"

definition py_int_unsigned :: "string \<Rightarrow> nat option" where
  "py_int_unsigned s = (if s \<noteq> [] \<and> is_digit (hd s) then digits_value 0 s else None)"

definition py_int :: "string \<Rightarrow> py_error + int" where
  "py_int s =
     (let t = strip s in
      if t \<noteq> [] \<and> hd t = CHR ''-'' then
        (case py_int_unsigned (tl t) of None \<Rightarrow> Inl ValueError | Some n \<Rightarrow> Inr (- int n))
      else if t \<noteq> [] \<and> hd t = CHR ''+'' then
        (case py_int_unsigned (tl t) of None \<Rightarrow> Inl ValueError | Some n \<Rightarrow> Inr (int n))
      else
        (case py_int_unsigned t of None \<Rightarrow> Inl ValueError | Some n \<Rightarrow> Inr (int n)))"

subsection \<open>\<open>struct.pack(">i", v)\<close>\<close>

text \<open>
  Packing with format \<open>>i\<close> raises \<open>struct.error\<close> unless \<open>- 2^31 \<le> v < 2^31\<close>, and
  otherwise gives the four bytes of the 32-bit two's-complement value \<open>v mod 2^32\<close>,
  most significant first. \<open>tuple(...)\<close> of the bytes object is the tuple of the byte values.
\<close>

definition struct_pack_be_i32 :: "int \<Rightarrow> py_error + int list" where
  "struct_pack_be_i32 v =
     (if - (2 ^ 31) \<le> v \<and> v < 2 ^ 31 then
        (let u = v mod 2 ^ 32
         in Inr [u div 2 ^ 24 mod 256, u div 2 ^ 16 mod 256, u div 2 ^ 8 mod 256, u mod 256])
      else Inl StructError)"

subsection \<open>\<open>Decimal(str)\<close>\<close>

text \<open>
  A \<open>Decimal\<close> is compared by its numeric value and is exact, so it is a rational
  number. \<open>Decimal(s)\<close> is modelled on plain decimal text, the form the wire uses: an
  optional sign, digits, and optionally a point followed by digits, with a digit on at
  least one side of the point; surrounding whitespace is stripped. Such text denotes
  the integer written by all its digits divided by ten to the number of digits after
  the point. Python accepts more than this form: an exponent part (\<open>1e1\<close>), underscores
  between digits, and the special values \<open>Infinity\<close> and \<open>NaN\<close>, the last of which is no
  number at all. These are not covered: the model answers \<open>InvalidOperation\<close> for them as
  for text that Python rejects too, so it stands for \<open>Decimal(s)\<close> on plain decimal text
  and on text that is no \<open>Decimal\<close> in any form. The properties below take it at plain
  decimal text only.
\<close>

definition Decimal :: "string \<Rightarrow> py_error + rat" where
  "Decimal s =
     (let t = strip s;
          neg = (t \<noteq> [] \<and> hd t = CHR ''-'');
          u = (if t \<noteq> [] \<and> (hd t = CHR ''-'' \<or> hd t = CHR ''+'') then tl t else t);
          ip = takeWhile (\<lambda>c. c \<noteq> CHR ''.'') u;
          rest = dropWhile (\<lambda>c. c \<noteq> CHR ''.'') u;
          fp = (if rest = [] then [] else tl rest)
      in if list_all is_digit ip \<and> list_all is_digit fp \<and> (ip \<noteq> [] \<or> fp \<noteq> []) then
           Inr ((if neg then - 1 else 1)
                * (of_nat (foldl (\<lambda>a c. 10 * a + digit_val c) 0 (ip @ fp)) / 10 ^ length fp))
         else Inl InvalidOperation)"

section \<open>RGB load interface (\<open>command_client/object_interfaces/rgb_load.py\<close>)\<close>

text \<open>
  \<open>Interface.invoke(vid, method, *params)\<close> is recorded as the call it makes: the
  object id, the method name and the parameters handed over.
\<close>

record invoke_call =
  call_vid :: int
  call_method :: string
  call_params :: "int list"

text \<open>
  \<open>set_rgb\<close> clamps each level with \<open>max(min(level, 255), 0)\<close> and invokes
  \<open>RGBLoad.SetRGB\<close> with the three clamped levels.
\<close>

definition set_rgb :: "int \<Rightarrow> int \<Rightarrow> int \<Rightarrow> int \<Rightarrow> invoke_call" where
  "set_rgb vid red green blue =
     (let red = max (min red 255) 0;
          green = max (min green 255) 0;
          blue = max (min blue 255) 0
      in \<lparr>call_vid = vid, call_method = ''RGBLoad.SetRGB'', call_params = [red, green, blue]\<rparr>)"

text \<open>
  Modelled from the spec: the request line of \<open>CommandClient.invoke\<close>, whose code is not
  among the sources. The spec gives the line as \<open>INVOKE <id> <methodName> <encoded args>\<close>,
  with integers encoded as decimal text and the fields separated by one space.
\<close>

definition request_line :: "invoke_call \<Rightarrow> string" where
  "request_line c =
     ''INVOKE '' @ py_str (call_vid c) @ '' '' @ call_method c
       @ concat (map (\<lambda>p. '' '' @ py_str p) (call_params c))"

text \<open>
  \<open>InterfaceResponse\<close>: the primary result of a reply line and the arguments that follow
  the method name.
\<close>

record interface_response =
  result :: string
  args :: "string list"

text \<open>\<open>parse_packed_color_response\<close>: \<open>tuple(struct.pack(">i", int(response.result)))\<close>.\<close>

definition parse_packed_color_response :: "interface_response \<Rightarrow> py_error + int list" where
  "parse_packed_color_response response =
     (case py_int (result response) of
        Inl e \<Rightarrow> Inl e
      | Inr v \<Rightarrow> struct_pack_be_i32 v)"

definition parse_get_color_response :: "interface_response \<Rightarrow> py_error + int list" where
  "parse_get_color_response response = parse_packed_color_response response"

text \<open>
  \<open>get_color\<close> invokes \<open>RGBLoad.GetColor\<close> and parses the response; \<open>get_rgb_color\<close>
  returns \<open>color[:3]\<close>. The response that \<open>invoke\<close> hands back is the parameter.
\<close>

definition get_color :: "interface_response \<Rightarrow> py_error + int list" where
  "get_color response = parse_get_color_response response"

definition get_rgb_color :: "interface_response \<Rightarrow> py_error + int list" where
  "get_rgb_color response =
     (case get_color response of
        Inl e \<Rightarrow> Inl e
      | Inr color \<Rightarrow> Inr (take 3 color))"

section \<open>Reply lines and the thermostat interface (\<open>command_client/interfaces/thermostat.py\<close>)\<close>

text \<open>
  Modelled from the spec: splitting a received line into tokens, whose code is not among
  the sources. Tokens are separated by spaces; a string wrapped in double quotes is one
  token, and \<open>\"\<close> inside it does not close it. \<open>CHR 0x22\<close> is the double quote and
  \<open>CHR 0x5C\<close> the backslash. The token under construction is kept reversed.
\<close>

fun tokenize_from :: "bool \<Rightarrow> string \<Rightarrow> string \<Rightarrow> string list" where
  "tokenize_from quoted cur [] = (if cur = [] then [] else [rev cur])"
| "tokenize_from quoted cur (c # cs) =
     (if quoted then
        (if c = CHR 0x22 \<and> (cur = [] \<or> hd cur \<noteq> CHR 0x5C)
         then tokenize_from False (c # cur) cs
         else tokenize_from True (c # cur) cs)
      else if c = CHR '' '' then
        (if cur = [] then tokenize_from False [] cs else rev cur # tokenize_from False [] cs)
      else if c = CHR 0x22 then tokenize_from True (c # cur) cs
      else tokenize_from False (c # cur) cs)"

definition tokenize :: "string \<Rightarrow> string list" where
  "tokenize line = tokenize_from False [] line"

text \<open>
  Modelled from the spec: the response object that a command returns, whose code is not
  among the sources. The reply line is \<open>R:<COMMAND> <token> ...\<close>; the response holds the
  command name and, as its arguments, every token after the first. This is the indexing
  the sources rely on: \<open>thermostat.py\<close> documents the reply
  \<open>R:INVOKE <id> <status> Thermostat.GetStatus\<close> and reads the status as \<open>args[1]\<close>, and
  \<open>gmem.py\<close> documents \<open>R:GETVARIABLE {id} {value}\<close> and reads the value as \<open>args[1]\<close>.
  A line that is not a reply gives \<open>None\<close>.
\<close>

record command_response =
  command :: string
  cmd_args :: "string list"

definition parse_reply :: "string \<Rightarrow> command_response option" where
  "parse_reply line =
     (case tokenize line of
        [] \<Rightarrow> None
      | t # ts \<Rightarrow>
          if take 2 t = ''R:'' then Some \<lparr>command = drop 2 t, cmd_args = ts\<rparr> else None)"

text \<open>Indexing a Python list with a non-negative index: out of range raises \<open>IndexError\<close>.\<close>

definition py_index :: "'a list \<Rightarrow> nat \<Rightarrow> py_error + 'a" where
  "py_index xs i = (if i < length xs then Inr (xs ! i) else Inl IndexError)"

text \<open>
  \<open>ThermostatInterface.Status\<close> is an \<open>IntEnum\<close>: members with a name and an integer
  value. \<open>Status[name]\<close> looks a member up by its name and raises \<open>KeyError(name)\<close> when
  no member has that name.
\<close>

datatype Status = Off | Cooling | Heating | Offline

fun Status_name :: "Status \<Rightarrow> string" where
  "Status_name Off = ''Off''"
| "Status_name Cooling = ''Cooling''"
| "Status_name Heating = ''Heating''"
| "Status_name Offline = ''Offline''"

fun Status_value :: "Status \<Rightarrow> int" where
  "Status_value Off = 0"
| "Status_value Cooling = 1"
| "Status_value Heating = 2"
| "Status_value Offline = 3"

definition Status_getitem :: "string \<Rightarrow> py_error + Status" where
  "Status_getitem name =
     (case map_of (map (\<lambda>m. (Status_name m, m)) [Off, Cooling, Heating, Offline]) name of
        None \<Rightarrow> Inl (KeyError name)
      | Some m \<Rightarrow> Inr m)"

text \<open>
  \<open>get_status\<close>: \<open>status = self.Status[response.args[1]]\<close>, on the response that
  \<open>invoke\<close> hands back.
\<close>

definition get_status :: "command_response \<Rightarrow> py_error + Status" where
  "get_status response =
     (case py_index (cmd_args response) 1 of
        Inl e \<Rightarrow> Inl e
      | Inr name \<Rightarrow> Status_getitem name)"

section \<open>System objects, controllers and the \<open>Vantage\<close> registry (\<open>__init__.py\<close>)\<close>

text \<open>
  A system object has its Vantage id, its Vantage type and its state attributes. A state
  attribute that holds Python's \<open>None\<close>, as every one does until it is first set
  (\<open>Temperature.__post_init__\<close> sets \<open>self.value = None\<close>), is an absent key of \<open>attrs\<close>.
\<close>

record 'v system_object =
  obj_id :: int
  obj_type :: string
  attrs :: "string \<rightharpoonup> 'v"

text \<open>
  A subscription is a callback, identified by a number, with an optional object filter.
\<close>

record 'v subscription =
  sub_callback :: nat
  sub_filter :: "('v system_object \<Rightarrow> bool) option"

text \<open>
  A controller declares the Vantage types it fetches (\<open>vantage_types\<close>) and the status
  categories it handles (\<open>status_types\<close>), and holds its objects in a dictionary keyed by
  id, kept here in insertion order.
\<close>

record 'v controller =
  vantage_types :: "string list"
  status_types :: "string list"
  items :: "(int \<times> 'v system_object) list"
  subscriptions :: "'v subscription list"

text \<open>
  Modelled from the spec: the membership test and the id-indexed lookup of a controller
  (\<open>vid in controller\<close>, \<open>controller[vid]\<close>), which \<open>BaseController\<close> defines outside the
  sources. They are the dictionary's: the lookup raises \<open>KeyError(vid)\<close> for an id
  that is not a key.
\<close>

definition controller_contains :: "'v controller \<Rightarrow> int \<Rightarrow> bool" where
  "controller_contains c vid = (map_of (items c) vid \<noteq> None)"

definition controller_getitem :: "'v controller \<Rightarrow> int \<Rightarrow> py_error + 'v system_object" where
  "controller_getitem c vid =
     (case map_of (items c) vid of
        None \<Rightarrow> Inl (KeyErrorId vid)
      | Some obj \<Rightarrow> Inr obj)"

text \<open>
  Modelled from the spec: how a controller's cache is filled, which \<open>BaseController\<close>
  does outside the sources. Discovery hands over the catalog of objects; a controller
  keeps the objects whose type is one of its declared \<open>vantage_types\<close> ("the Vantage object
  types that this controller will fetch"), each stored under its id as a dictionary
  assignment does.
\<close>

definition controller_fetch :: "'v controller \<Rightarrow> 'v system_object list \<Rightarrow> 'v controller" where
  "controller_fetch c catalog =
     c\<lparr>items := foldl (\<lambda>d obj. AList.update (obj_id obj) obj d) []
                    (filter (\<lambda>obj. obj_type obj \<in> set (vantage_types c)) catalog)\<rparr>"

text \<open>
  \<open>Vantage\<close> holds its controllers in a Python set; \<open>controllers\<close> lists them in the order
  in which that set is iterated. The three clients are left out: no operation below
  touches them. Every operation returns its result together with the \<open>Vantage\<close> state it
  leaves behind.
\<close>

record 'v vantage =
  controllers :: "'v controller list"

text \<open>
  \<open>__getitem__\<close>: the first controller, in iteration order, that contains the id gives
  the object; when the loop ends without one, \<open>KeyError(vid)\<close> is raised.
\<close>

fun getitem_loop :: "'v controller list \<Rightarrow> int \<Rightarrow> py_error + 'v system_object" where
  "getitem_loop [] vid = Inl (KeyErrorId vid)"
| "getitem_loop (c # cs) vid =
     (if controller_contains c vid then controller_getitem c vid else getitem_loop cs vid)"

definition Vantage_getitem ::
  "'v vantage \<Rightarrow> int \<Rightarrow> (py_error + 'v system_object) \<times> 'v vantage" where
  "Vantage_getitem v vid = (getitem_loop (controllers v) vid, v)"

text \<open>\<open>__contains__\<close>: \<open>any(vid in controller for controller in self._controllers)\<close>.\<close>

definition Vantage_contains :: "'v vantage \<Rightarrow> int \<Rightarrow> bool \<times> 'v vantage" where
  "Vantage_contains v vid = (list_ex (\<lambda>c. controller_contains c vid) (controllers v), v)"

text \<open>
  \<open>get\<close>: \<open>self[vid]\<close> inside \<open>try\<close>, with \<open>except KeyError: return None\<close>. Any other
  exception would pass through.
\<close>

fun is_KeyError :: "py_error \<Rightarrow> bool" where
  "is_KeyError (KeyError k) = True"
| "is_KeyError (KeyErrorId k) = True"
| "is_KeyError e = False"

definition Vantage_get ::
  "'v vantage \<Rightarrow> int \<Rightarrow> (py_error + 'v system_object option) \<times> 'v vantage" where
  "Vantage_get v vid =
     (case Vantage_getitem v vid of
        (Inr obj, v') \<Rightarrow> (Inr (Some obj), v')
      | (Inl e, v') \<Rightarrow> (if is_KeyError e then (Inr None, v') else (Inl e, v')))"

text \<open>
  \<open>initialize\<close> initialises every controller. Of a controller's initialisation only the
  filling of its cache from the catalog is kept (see \<open>controller_fetch\<close>).
\<close>

definition Vantage_initialize :: "'v vantage \<Rightarrow> 'v system_object list \<Rightarrow> 'v vantage" where
  "Vantage_initialize v catalog =
     v\<lparr>controllers := map (\<lambda>c. controller_fetch c catalog) (controllers v)\<rparr>"

subsection \<open>State updates and notifications\<close>

text \<open>
  A notification names the object and the attributes that changed. The result of a state
  update is the object as it is afterwards, the attribute assignments that were made,
  the notifications that were emitted, and the callbacks that were invoked, each with
  the notification handed to it.
\<close>

record 'v notification =
  note_obj :: "'v system_object"
  note_changed :: "string list"

record 'v update_result =
  new_obj :: "'v system_object"
  writes :: "(string \<times> 'v) list"
  emitted :: "'v notification list"
  calls :: "(nat \<times> 'v notification) list"

definition matching :: "'v subscription \<Rightarrow> 'v system_object \<Rightarrow> bool" where
  "matching s obj = (case sub_filter s of None \<Rightarrow> True | Some f \<Rightarrow> f obj)"

text \<open>
  Modelled from the spec: \<open>update_state(obj, partialAttrs)\<close>, which \<open>BaseController\<close>
  defines outside the sources. "For each entry, compares against the cached value;
  mutates only entries that actually differ; if the resulting changed-attribute set is
  non-empty, invokes every matching Subscription exactly once with that set. No
  notification fires for a no-op update." The entries of the dictionary are taken in
  order.
\<close>

fun update_attrs ::
  "(string \<rightharpoonup> 'v) \<Rightarrow> (string \<times> 'v) list \<Rightarrow> (string \<rightharpoonup> 'v) \<times> (string \<times> 'v) list" where
  "update_attrs a [] = (a, [])"
| "update_attrs a ((k, v) # rest) =
     (if a k \<noteq> Some v
      then (let (a', ws) = update_attrs (a(k \<mapsto> v)) rest in (a', (k, v) # ws))
      else update_attrs a rest)"

definition update_state ::
  "'v subscription list \<Rightarrow> 'v system_object \<Rightarrow> (string \<times> 'v) list \<Rightarrow> 'v update_result" where
  "update_state subs obj partial_attrs =
     (let (a', ws) = update_attrs (attrs obj) partial_attrs;
          obj' = obj\<lparr>attrs := a'\<rparr>;
          attrs_changed = map fst ws;
          notes = (if attrs_changed \<noteq> [] then [\<lparr>note_obj = obj', note_changed = attrs_changed\<rparr>]
                   else [])
      in \<lparr>new_obj = obj', writes = ws, emitted = notes,
          calls = concat (map (\<lambda>n. map (\<lambda>s. (sub_callback s, n))
                                      (filter (\<lambda>s. matching s obj') subs)) notes)\<rparr>)"

text \<open>The result of doing nothing to an object.\<close>

definition unchanged :: "'v system_object \<Rightarrow> 'v update_result" where
  "unchanged obj = \<lparr>new_obj = obj, writes = [], emitted = [], calls = []\<rparr>"

text \<open>
  Modelled from the spec: \<open>update_property(name, value)\<close> of the interface classes
  (\<open>Interface\<close>, not among the sources). The spec has no sentence of its own on
  \<open>update_property\<close>: it states the rule for \<open>update_state\<close> only. What is known of
  \<open>update_property\<close> is how the sources call it: \<open>GMemInterface.fetch_state\<close>, of result
  type \<open>list[str] | None\<close>, tests its result and returns it in a list
  (\<open>if changed := self.update_property("value", value): return [changed]\<close>), and
  \<open>handle_category_status\<close>, of result type \<open>str | None\<close>, returns it as it is. The model
  takes the result for the name of the property when the property changed and \<open>None\<close>
  when it did not, and the method for the one-attribute case of the rule of
  \<open>update_state\<close>: the cached value is replaced only when it differs. That the real method
  compares and assigns in this way is an assumption of the model, not a fact read from
  code.
\<close>

definition update_property ::
  "(string \<rightharpoonup> 'v) \<Rightarrow> string \<Rightarrow> 'v \<Rightarrow> (string \<rightharpoonup> 'v) \<times> string option" where
  "update_property self property v =
     (if self property \<noteq> Some v then (self(property \<mapsto> v), Some property) else (self, None))"

subsection \<open>\<open>GMemInterface\<close> and \<open>CurrentSensorInterface\<close> (\<open>object_interfaces\<close>)\<close>

text \<open>The value of a variable is \<open>int | str | bytes\<close>.\<close>

datatype gmem_value = GInt int | GStr string | GBytes "nat list"

text \<open>
  \<open>GMemInterface.fetch_state\<close>: \<open>value = await self.get_value()\<close>, then
  \<open>if changed := self.update_property("value", value): return [changed]\<close>, and \<open>None\<close>
  otherwise. The value that \<open>get_value\<close> fetched is the parameter; a name is true in the
  \<open>if\<close> when it is not the empty string.
\<close>

definition GMem_fetch_state ::
  "(string \<rightharpoonup> gmem_value) \<Rightarrow> gmem_value \<Rightarrow> (string \<rightharpoonup> gmem_value) \<times> string list option" where
  "GMem_fetch_state self v =
     (let (self', changed) = update_property self ''value'' v
      in case changed of
           None \<Rightarrow> (self', None)
         | Some name \<Rightarrow> if name \<noteq> [] then (self', Some [name]) else (self', None))"

text \<open>
  \<open>CurrentSensorInterface.handle_category_status\<close>: for the category \<open>CURRENT\<close> it
  returns \<open>self.update_property("current", Decimal(args[0]))\<close>, for any other \<open>None\<close>.
\<close>

definition CurrentSensor_handle_category_status ::
  "(string \<rightharpoonup> rat) \<Rightarrow> string \<Rightarrow> string list \<Rightarrow> py_error + (string \<rightharpoonup> rat) \<times> string option" where
  "CurrentSensor_handle_category_status self category args' =
     (if category = ''CURRENT'' then
        (case py_index args' 0 of
           Inl e \<Rightarrow> Inl e
         | Inr a \<Rightarrow> (case Decimal a of
               Inl e \<Rightarrow> Inl e
             | Inr d \<Rightarrow> Inr (update_property self ''current'' d)))
      else Inr (self, None))"

subsection \<open>\<open>TemperatureSensorsController\<close> (\<open>controllers/temperature_sensors.py\<close>)\<close>




subsection \<open>The controllers of the sources and a small installation\<close>

text \<open>
  The class constants of \<open>TemperatureSensorsController\<close>, \<open>LoadsController\<close> and
  \<open>LoadGroupsController\<close>, each with an empty cache and no subscriber. The two
  load controllers declare no status category in the sources.
\<close>

definition TemperatureSensorsController :: "'v controller" where
  "TemperatureSensorsController =
     \<lparr>vantage_types = [''Temperature''], status_types = [''TEMP''], items = [],
      subscriptions = []\<rparr>"

definition LoadsController :: "'v controller" where
  "LoadsController =
     \<lparr>vantage_types = [''Load''], status_types = [], items = [], subscriptions = []\<rparr>"

definition LoadGroupsController :: "'v controller" where
  "LoadGroupsController =
     \<lparr>vantage_types = [''LoadGroup''], status_types = [], items = [], subscriptions = []\<rparr>"

text \<open>
  A catalog of three objects, one per controller, and the registry initialised from it;
  the theorems below are instantiated on it.
\<close>

definition temperature_10 :: "rat system_object" where
  "temperature_10 = \<lparr>obj_id = 10, obj_type = ''Temperature'', attrs = Map.empty\<rparr>"

definition load_20 :: "rat system_object" where
  "load_20 = \<lparr>obj_id = 20, obj_type = ''Load'', attrs = Map.empty\<rparr>"

definition load_group_30 :: "rat system_object" where
  "load_group_30 = \<lparr>obj_id = 30, obj_type = ''LoadGroup'', attrs = Map.empty\<rparr>"

definition small_catalog :: "rat system_object list" where
  "small_catalog = [temperature_10, load_20, load_group_30]"

definition small_vantage :: "rat vantage" where
  "small_vantage =
     \<lparr>controllers = [LoadGroupsController, LoadsController, TemperatureSensorsController]\<rparr>"

text \<open>
  An object with two attributes and a subscriber without filter, and the temperature
  controller of the installation, holding object 10 with no value yet.
\<close>

definition two_attrs :: "int system_object" where
  "two_attrs = \<lparr>obj_id = 1, obj_type = ''GMem'', attrs = [''a'' \<mapsto> 1, ''b'' \<mapsto> 2]\<rparr>"

definition listener_7 :: "'v subscription" where
  "listener_7 = \<lparr>sub_callback = 7, sub_filter = None\<rparr>"


section \<open>Properties\<close>

subsection \<open>Decimal text round trip\<close>

lemma digit_char_is_digit: "d < 10 \<Longrightarrow> is_digit (digit_char d)"
  by (simp add: is_digit_def digit_char_def)

lemma digit_val_digit_char: "d < 10 \<Longrightarrow> digit_val (digit_char d) = d"
  by (simp add: digit_val_def digit_char_def)

lemma str_nat_digits: "list_all is_digit (str_nat n)"
  by (induction n rule: str_nat.induct) (subst str_nat.simps, simp add: digit_char_is_digit)

lemma str_nat_nonempty: "str_nat n \<noteq> []"
  by (subst str_nat.simps) simp

lemma digits_value_all_digits:
  "list_all is_digit ds \<Longrightarrow> digits_value acc ds = Some (foldl (\<lambda>a c. 10 * a + digit_val c) acc ds)"
  by (induction ds arbitrary: acc) simp_all

lemma foldl_str_nat: "foldl (\<lambda>a c. 10 * a + digit_val c) 0 (str_nat n) = n"
proof (induction n rule: str_nat.induct)
  case (1 n)
  show ?case
  proof (cases "n < 10")
    case True
    then show ?thesis by (subst str_nat.simps) (simp add: digit_val_digit_char)
  next
    case False
    with 1 show ?thesis by (subst str_nat.simps) (simp add: digit_val_digit_char)
  qed
qed

lemma hd_str_nat_digit: "is_digit (hd (str_nat n))"
  using str_nat_digits [of n] str_nat_nonempty [of n] by (cases "str_nat n") simp_all

lemma py_int_unsigned_str_nat: "py_int_unsigned (str_nat n) = Some n"
  by (simp add: py_int_unsigned_def str_nat_nonempty hd_str_nat_digit
      digits_value_all_digits [OF str_nat_digits] foldl_str_nat)

lemma digit_not_space: "is_digit c \<Longrightarrow> \<not> is_space c"
  by (auto simp: is_digit_def is_space_def)

lemma last_str_nat_digit: "is_digit (last (str_nat n))"
  using str_nat_digits [of n] str_nat_nonempty [of n]
  by (metis last_in_set list_all_iff)

lemma strip_id: "s \<noteq> [] \<Longrightarrow> \<not> is_space (hd s) \<Longrightarrow> \<not> is_space (last s) \<Longrightarrow> strip s = s"
proof -
  assume a: "s \<noteq> []" "\<not> is_space (hd s)" "\<not> is_space (last s)"
  then have "dropWhile is_space s = s" by (cases s) simp_all
  moreover from a have "dropWhile is_space (rev s) = rev s"
    by (cases "rev s") (simp_all add: last_rev [symmetric] hd_rev)
  ultimately show ?thesis by (simp add: strip_def)
qed

lemma minus_not_digit: "\<not> is_digit CHR ''-''" "\<not> is_space CHR ''-''" "\<not> is_digit CHR ''+''"
  by (simp_all add: is_digit_def is_space_def)

lemma hd_str_nat_not_sign: "hd (str_nat n) \<noteq> CHR ''-''" "hd (str_nat n) \<noteq> CHR ''+''"
  using hd_str_nat_digit [of n] minus_not_digit by auto

lemma strip_py_str: "strip (py_str i) = py_str i"
proof (rule strip_id)
  show "py_str i \<noteq> []" by (simp add: py_str_def str_nat_nonempty)
  show "\<not> is_space (hd (py_str i))"
    by (simp add: py_str_def minus_not_digit digit_not_space hd_str_nat_digit)
  show "\<not> is_space (last (py_str i))"
    by (simp add: py_str_def str_nat_nonempty digit_not_space last_str_nat_digit)
qed

lemma py_int_py_str: "py_int (py_str i) = Inr i"
proof (cases "i < 0")
  case True
  then show ?thesis
    by (simp add: py_int_def strip_py_str) (simp add: py_str_def py_int_unsigned_str_nat)
next
  case False
  then show ?thesis
    by (simp add: py_int_def strip_py_str)
       (simp add: py_str_def py_int_unsigned_str_nat str_nat_nonempty hd_str_nat_not_sign)
qed

text \<open>Evaluating \<open>py_str\<close> at a numeral, by rewriting.\<close>

lemma digit_char_eval:
  "digit_char 0 = CHR ''0''" "digit_char (Suc 0) = CHR ''1''" "digit_char 2 = CHR ''2''"
  "digit_char 3 = CHR ''3''" "digit_char 4 = CHR ''4''" "digit_char 5 = CHR ''5''"
  "digit_char 6 = CHR ''6''" "digit_char 7 = CHR ''7''" "digit_char 8 = CHR ''8''"
  "digit_char 9 = CHR ''9''"
  by code_simp+

lemma str_nat_numeral:
  "str_nat (numeral k) =
     (if (numeral k :: nat) < 10 then [digit_char (numeral k)]
      else str_nat (numeral k div 10) @ [digit_char (numeral k mod 10)])"
  by (rule str_nat.simps)

lemma str_nat_small: "str_nat 0 = ''0''" "str_nat (Suc 0) = ''1''"
  by (simp_all add: str_nat.simps [of 0] str_nat.simps [of "Suc 0"] digit_char_eval)

lemmas py_str_eval = py_str_def str_nat_numeral str_nat_small digit_char_eval

subsection \<open>Packing a 32-bit integer\<close>

lemma byte_of_word:
  "uint (ucast (drop_bit k (word_of_int v :: 32 word)) :: 8 word) = (v mod 2 ^ 32) div 2 ^ k mod 256"
proof -
  have "uint (ucast (drop_bit k (word_of_int v :: 32 word)) :: 8 word)
      = take_bit 8 (drop_bit k (take_bit 32 (uint (word_of_int v :: 32 word))))"
    by (simp only: unsigned_ucast_eq unsigned_drop_bit_eq) simp
  also have "\<dots> = (v mod 2 ^ 32) div 2 ^ k mod 256"
    by (simp add: uint_word_of_int take_bit_eq_mod drop_bit_eq_div)
  finally show ?thesis .
qed

lemma sint_word_of_int_i32: "- (2 ^ 31) \<le> v \<Longrightarrow> v < 2 ^ 31 \<Longrightarrow> sint (word_of_int v :: 32 word) = v"
  by (simp add: sint_sbintrunc' signed_take_bit_int_eq_self)

lemma struct_pack_word:
  "- (2 ^ 31) \<le> v \<Longrightarrow> v < 2 ^ 31 \<Longrightarrow>
   struct_pack_be_i32 v =
     Inr (map (\<lambda>k. uint (ucast (drop_bit k (word_of_int v :: 32 word)) :: 8 word)) [24, 16, 8, 0])"
  by (simp add: struct_pack_be_i32_def byte_of_word Let_def)

subsection \<open>RGB load\<close>

lemma set_rgb_scenario_params: "call_params (set_rgb 42 300 (- 10) 128) = [255, 0, 128]"
  by (simp add: set_rgb_def)

lemma set_rgb_scenario_line:
  "request_line (set_rgb 42 300 (- 10) 128) = ''INVOKE 42 RGBLoad.SetRGB 255 0 128''"
  by code_simp

text \<open>
  C6: \<open>set_rgb(42, 300, -10, 128)\<close> sends the levels \<open>(255, 0, 128)\<close> and the request
  line is \<open>INVOKE 42 RGBLoad.SetRGB 255 0 128\<close>; for all integer inputs each level sent
  is \<open>max(min(level, 255), 0)\<close>, which lies in \<open>[0, 255]\<close> and depends on its own
  channel only.
\<close>

theorem set_rgb_clamps:
  "call_params (set_rgb 42 300 (- 10) 128) = [255, 0, 128]
   \<and> request_line (set_rgb 42 300 (- 10) 128) = ''INVOKE 42 RGBLoad.SetRGB 255 0 128''
   \<and> call_vid (set_rgb vid r g b) = vid
   \<and> call_method (set_rgb vid r g b) = ''RGBLoad.SetRGB''
   \<and> call_params (set_rgb vid r g b) = [max (min r 255) 0, max (min g 255) 0, max (min b 255) 0]
   \<and> list_all (\<lambda>level. 0 \<le> level \<and> level \<le> 255) (call_params (set_rgb vid r g b))"
  using set_rgb_scenario_params set_rgb_scenario_line by (simp add: set_rgb_def)

text \<open>
  C9: when the result field of the response is the decimal text of an integer \<open>r\<close>
  with \<open>- 2^31 \<le> r < 2^31\<close>, \<open>parse_get_color_response\<close> returns the four bytes of the
  32-bit two's-complement word of \<open>r\<close> (the word whose signed value is \<open>r\<close>), most
  significant byte first, and \<open>get_rgb_color\<close> returns the first three of them; when
  \<open>r\<close> is outside that range both fail with \<open>struct.error\<close>.
\<close>

theorem parse_get_color_response_bytes:
  assumes "result response = py_str r"
  shows "(- (2 ^ 31) \<le> r \<and> r < 2 ^ 31 \<longrightarrow>
            parse_get_color_response response =
              Inr (map (\<lambda>k. uint (ucast (drop_bit k (word_of_int r :: 32 word)) :: 8 word))
                     [24, 16, 8, 0])
          \<and> sint (word_of_int r :: 32 word) = r
          \<and> get_rgb_color response =
              Inr (map (\<lambda>k. uint (ucast (drop_bit k (word_of_int r :: 32 word)) :: 8 word))
                     [24, 16, 8]))
       \<and> (\<not> (- (2 ^ 31) \<le> r \<and> r < 2 ^ 31) \<longrightarrow>
            parse_get_color_response response = Inl StructError
          \<and> get_rgb_color response = Inl StructError)"
proof -
  have parse: "parse_get_color_response response = struct_pack_be_i32 r"
    using assms
    by (simp add: parse_get_color_response_def parse_packed_color_response_def py_int_py_str)
  show ?thesis
  proof (cases "- (2 ^ 31) \<le> r \<and> r < 2 ^ 31")
    case True
    then have "struct_pack_be_i32 r =
        Inr (map (\<lambda>k. uint (ucast (drop_bit k (word_of_int r :: 32 word)) :: 8 word))
               [24, 16, 8, 0])"
      by (simp add: struct_pack_word)
    with True parse show ?thesis
      by (simp add: get_rgb_color_def get_color_def sint_word_of_int_i32)
  next
    case False
    then have "struct_pack_be_i32 r = Inl StructError"
      by (auto simp: struct_pack_be_i32_def)
    with False parse show ?thesis
      by (simp add: get_rgb_color_def get_color_def)
  qed
qed

theorem parse_get_color_response_bytes_witness:
  "result \<lparr>result = ''16909060'', args = []\<rparr> = py_str 16909060
   \<and> parse_get_color_response \<lparr>result = ''16909060'', args = []\<rparr> = Inr [1, 2, 3, 4]
   \<and> get_rgb_color \<lparr>result = ''16909060'', args = []\<rparr> = Inr [1, 2, 3]
   \<and> result \<lparr>result = ''-1'', args = []\<rparr> = py_str (- 1)
   \<and> parse_get_color_response \<lparr>result = ''-1'', args = []\<rparr> = Inr [255, 255, 255, 255]
   \<and> result \<lparr>result = ''2147483648'', args = []\<rparr> = py_str 2147483648
   \<and> parse_get_color_response \<lparr>result = ''2147483648'', args = []\<rparr> = Inl StructError
   \<and> get_rgb_color \<lparr>result = ''2147483648'', args = []\<rparr> = Inl StructError"
proof -
  have h1: "result \<lparr>result = ''16909060'', args = []\<rparr> = py_str 16909060"
    by (simp add: py_str_eval)
  have h2: "result \<lparr>result = ''-1'', args = []\<rparr> = py_str (- 1)"
    by (simp add: py_str_eval)
  have h3: "result \<lparr>result = ''2147483648'', args = []\<rparr> = py_str 2147483648"
    by (simp add: py_str_eval)
  note t1 = parse_get_color_response_bytes [OF h1, unfolded byte_of_word]
  note t2 = parse_get_color_response_bytes [OF h2, unfolded byte_of_word]
  note t3 = parse_get_color_response_bytes [OF h3, unfolded byte_of_word]
  have "parse_get_color_response \<lparr>result = ''16909060'', args = []\<rparr> = Inr [1, 2, 3, 4]"
       "get_rgb_color \<lparr>result = ''16909060'', args = []\<rparr> = Inr [1, 2, 3]"
    using t1 by simp_all
  moreover have "parse_get_color_response \<lparr>result = ''-1'', args = []\<rparr> = Inr [255, 255, 255, 255]"
    using t2 by simp
  moreover have "parse_get_color_response \<lparr>result = ''2147483648'', args = []\<rparr> = Inl StructError"
       "get_rgb_color \<lparr>result = ''2147483648'', args = []\<rparr> = Inl StructError"
    using t3 by simp_all
  ultimately show ?thesis using h1 h2 h3 by blast
qed

subsection \<open>Thermostat status\<close>

lemma Status_getitem_iff: "(Status_getitem name = Inr m) = (name = Status_name m)"
  by (cases m) (auto simp: Status_getitem_def)

lemma reply_scenario:
  "parse_reply ''R:INVOKE 7 0 Thermostat.GetStatus Heating''
     = Some \<lparr>command = ''INVOKE'', cmd_args = [''7'', ''0'', ''Thermostat.GetStatus'', ''Heating'']\<rparr>"
  by code_simp

lemma reply_documented:
  "parse_reply ''R:INVOKE 7 Heating Thermostat.GetStatus''
     = Some \<lparr>command = ''INVOKE'', cmd_args = [''7'', ''Heating'', ''Thermostat.GetStatus'']\<rparr>"
  by code_simp

lemma reply_ordinal:
  "parse_reply ''R:INVOKE 7 2 Thermostat.GetStatus''
     = Some \<lparr>command = ''INVOKE'', cmd_args = [''7'', ''2'', ''Thermostat.GetStatus'']\<rparr>"
  by code_simp

text \<open>
  C7 as stated fails: in the reply line \<open>R:INVOKE 7 0 Thermostat.GetStatus Heating\<close> the
  token that \<open>get_status\<close> reads, \<open>args[1]\<close>, is \<open>0\<close>, which is not the name of a member,
  so the lookup raises \<open>KeyError\<close> and \<open>Heating\<close> is not returned. Were the arguments
  only the tokens after the method name, \<open>args[1]\<close> would not exist and the call would
  raise \<open>IndexError\<close>.
\<close>

theorem get_status_scenario_counterexample:
  "map_option get_status (parse_reply ''R:INVOKE 7 0 Thermostat.GetStatus Heating'')
     = Some (Inl (KeyError ''0''))
   \<and> map_option get_status (parse_reply ''R:INVOKE 7 0 Thermostat.GetStatus Heating'')
     \<noteq> Some (Inr Heating)
   \<and> get_status \<lparr>command = ''INVOKE'', cmd_args = [''Heating'']\<rparr> = Inl IndexError"
  by (simp add: reply_scenario get_status_def py_index_def Status_getitem_def)

text \<open>
  C7, amended: the reply line \<open>R:INVOKE 7 Heating Thermostat.GetStatus\<close>, with the status
  name in the result position as the source documents it, makes \<open>get_status\<close> return the
  member \<open>Heating\<close>, whose value is 2. The lookup is by member name only: \<open>get_status\<close>
  returns a member exactly when \<open>args[1]\<close> exists and is that member's name, and the
  ordinal text \<open>2\<close> in that position raises \<open>KeyError\<close> instead of being cast.
\<close>

theorem get_status_by_name:
  "map_option get_status (parse_reply ''R:INVOKE 7 Heating Thermostat.GetStatus'')
     = Some (Inr Heating)
   \<and> Status_value Heating = 2
   \<and> (get_status response = Inr m)
       = (1 < length (cmd_args response) \<and> cmd_args response ! 1 = Status_name m)
   \<and> map_option get_status (parse_reply ''R:INVOKE 7 2 Thermostat.GetStatus'')
     = Some (Inl (KeyError ''2''))"
proof -
  have "map_option get_status (parse_reply ''R:INVOKE 7 Heating Thermostat.GetStatus'')
      = Some (Inr Heating)"
    by (simp add: reply_documented get_status_def py_index_def Status_getitem_def)
  moreover have "(get_status response = Inr m)
      = (1 < length (cmd_args response) \<and> cmd_args response ! 1 = Status_name m)"
    by (auto simp: get_status_def py_index_def Status_getitem_iff)
  moreover have "map_option get_status (parse_reply ''R:INVOKE 7 2 Thermostat.GetStatus'')
      = Some (Inl (KeyError ''2''))"
    by (simp add: reply_ordinal get_status_def py_index_def Status_getitem_def)
  ultimately show ?thesis by simp
qed

subsection \<open>Registry lookup\<close>

lemma getitem_loop_none:
  "\<not> list_ex (\<lambda>c. controller_contains c vid) cs \<Longrightarrow> getitem_loop cs vid = Inl (KeyErrorId vid)"
  by (induction cs) simp_all

lemma getitem_loop_some:
  "list_ex (\<lambda>c. controller_contains c vid) cs \<Longrightarrow>
   \<exists>c obj. c \<in> set cs \<and> controller_contains c vid \<and> controller_getitem c vid = Inr obj
     \<and> getitem_loop cs vid = Inr obj"
proof (induction cs)
  case Nil
  then show ?case by simp
next
  case (Cons c cs)
  show ?case
  proof (cases "controller_contains c vid")
    case True
    then obtain obj where "controller_getitem c vid = Inr obj"
      by (auto simp: controller_contains_def controller_getitem_def)
    with True show ?thesis by auto
  next
    case False
    with Cons show ?thesis by auto
  qed
qed

lemma small_controllers:
  "controllers (Vantage_initialize small_vantage small_catalog) =
     [LoadGroupsController\<lparr>items := [(30, load_group_30)]\<rparr>,
      LoadsController\<lparr>items := [(20, load_20)]\<rparr>,
      TemperatureSensorsController\<lparr>items := [(10, temperature_10)]\<rparr>]"
  by (simp add: Vantage_initialize_def small_vantage_def small_catalog_def controller_fetch_def
      LoadGroupsController_def LoadsController_def TemperatureSensorsController_def
      temperature_10_def load_20_def load_group_30_def)

lemma small_types_disjoint:
  "\<forall>i < length (controllers small_vantage). \<forall>j < length (controllers small_vantage). i \<noteq> j \<longrightarrow>
     set (vantage_types (controllers small_vantage ! i))
       \<inter> set (vantage_types (controllers small_vantage ! j)) = {}"
  by (simp add: small_vantage_def LoadGroupsController_def LoadsController_def
      TemperatureSensorsController_def less_Suc_eq numeral_3_eq_3 all_conj_distrib)

lemma small_ids_distinct: "distinct (map obj_id small_catalog)"
  by (simp add: small_catalog_def temperature_10_def load_20_def load_group_30_def)

lemma small_known: "fst (Vantage_contains (Vantage_initialize small_vantage small_catalog) 10)"
  by (simp add: Vantage_contains_def small_controllers controller_contains_def
      LoadGroupsController_def LoadsController_def TemperatureSensorsController_def)

text \<open>
  C10: if some controller contains \<open>vid\<close>, \<open>Vantage.get(vid)\<close> returns the object that
  \<open>Vantage[vid]\<close> returns; if none does, \<open>Vantage[vid]\<close> raises \<open>KeyError(vid)\<close> and
  \<open>Vantage.get(vid)\<close> returns \<open>None\<close> without raising. Both leave the registry, and so
  every controller, as it was.
\<close>

theorem Vantage_get_agrees_with_getitem:
  "((\<exists>c \<in> set (controllers v). controller_contains c vid) \<longrightarrow>
      (\<exists>obj. fst (Vantage_getitem v vid) = Inr obj \<and> fst (Vantage_get v vid) = Inr (Some obj)))
   \<and> (\<not> (\<exists>c \<in> set (controllers v). controller_contains c vid) \<longrightarrow>
      fst (Vantage_getitem v vid) = Inl (KeyErrorId vid) \<and> fst (Vantage_get v vid) = Inr None)
   \<and> snd (Vantage_getitem v vid) = v \<and> snd (Vantage_get v vid) = v"
proof -
  have state: "snd (Vantage_getitem v vid) = v" "snd (Vantage_get v vid) = v"
    by (simp_all add: Vantage_get_def Vantage_getitem_def split: sum.splits)
  have found: "\<exists>obj. fst (Vantage_getitem v vid) = Inr obj \<and> fst (Vantage_get v vid) = Inr (Some obj)"
    if "\<exists>c \<in> set (controllers v). controller_contains c vid"
  proof -
    from that have "list_ex (\<lambda>c. controller_contains c vid) (controllers v)"
      by (simp add: list_ex_iff)
    from getitem_loop_some [OF this] obtain obj where "getitem_loop (controllers v) vid = Inr obj"
      by blast
    then show ?thesis by (simp add: Vantage_get_def Vantage_getitem_def)
  qed
  have missing: "fst (Vantage_getitem v vid) = Inl (KeyErrorId vid) \<and> fst (Vantage_get v vid) = Inr None"
    if "\<not> (\<exists>c \<in> set (controllers v). controller_contains c vid)"
  proof -
    from that have "\<not> list_ex (\<lambda>c. controller_contains c vid) (controllers v)"
      by (simp add: list_ex_iff)
    from getitem_loop_none [OF this] show ?thesis
      by (simp add: Vantage_get_def Vantage_getitem_def)
  qed
  from state found missing show ?thesis by blast
qed

theorem Vantage_get_agrees_with_getitem_witness:
  "(\<exists>c \<in> set (controllers (Vantage_initialize small_vantage small_catalog)). controller_contains c 10)
   \<and> fst (Vantage_getitem (Vantage_initialize small_vantage small_catalog) 10) = Inr temperature_10
   \<and> fst (Vantage_get (Vantage_initialize small_vantage small_catalog) 10) = Inr (Some temperature_10)
   \<and> \<not> (\<exists>c \<in> set (controllers (Vantage_initialize small_vantage small_catalog)). controller_contains c 99)
   \<and> fst (Vantage_getitem (Vantage_initialize small_vantage small_catalog) 99) = Inl (KeyErrorId 99)
   \<and> fst (Vantage_get (Vantage_initialize small_vantage small_catalog) 99) = Inr None"
proof -
  have h1: "\<exists>c \<in> set (controllers (Vantage_initialize small_vantage small_catalog)). controller_contains c 10"
    by (simp add: small_controllers controller_contains_def
      LoadGroupsController_def LoadsController_def TemperatureSensorsController_def)
  have h2: "\<not> (\<exists>c \<in> set (controllers (Vantage_initialize small_vantage small_catalog)). controller_contains c 99)"
    by (simp add: small_controllers controller_contains_def
      LoadGroupsController_def LoadsController_def TemperatureSensorsController_def)
  have g: "fst (Vantage_getitem (Vantage_initialize small_vantage small_catalog) 10) = Inr temperature_10"
    by (simp add: Vantage_getitem_def small_controllers controller_contains_def controller_getitem_def
      LoadGroupsController_def LoadsController_def TemperatureSensorsController_def)
  from h1 h2 g
    Vantage_get_agrees_with_getitem [of "Vantage_initialize small_vantage small_catalog" 10]
    Vantage_get_agrees_with_getitem [of "Vantage_initialize small_vantage small_catalog" 99]
  show ?thesis by auto
qed

subsection \<open>Registry exclusivity\<close>

lemma keys_foldl_update:
  "fst ` set (foldl (\<lambda>d obj. AList.update (obj_id obj) obj d) d0 xs) = fst ` set d0 \<union> obj_id ` set xs"
  by (induction xs arbitrary: d0) (auto simp: AList.dom_update)

lemma map_of_foldl_update_other:
  "k \<notin> obj_id ` set xs \<Longrightarrow>
   map_of (foldl (\<lambda>d obj. AList.update (obj_id obj) obj d) d0 xs) k = map_of d0 k"
  by (induction xs arbitrary: d0) (auto simp: AList.update_conv')

lemma map_of_foldl_update_distinct:
  "distinct (map obj_id xs) \<Longrightarrow> x \<in> set xs \<Longrightarrow>
   map_of (foldl (\<lambda>d obj. AList.update (obj_id obj) obj d) d0 xs) (obj_id x) = Some x"
proof (induction xs arbitrary: d0)
  case Nil
  then show ?case by simp
next
  case (Cons y ys)
  show ?case
  proof (cases "x = y")
    case True
    with Cons.prems have "obj_id x \<notin> obj_id ` set ys" by auto
    then show ?thesis using True
      by (simp add: map_of_foldl_update_other AList.update_conv')
  next
    case False
    with Cons show ?thesis by auto
  qed
qed

lemma distinct_filter_ids:
  "distinct (map obj_id catalog) \<Longrightarrow> distinct (map obj_id (filter P catalog))"
  by (induction catalog) auto

lemma fetch_contains_iff:
  "controller_contains (controller_fetch c catalog) vid =
     (\<exists>obj \<in> set catalog. obj_id obj = vid \<and> obj_type obj \<in> set (vantage_types c))"
proof -
  have "controller_contains (controller_fetch c catalog) vid
      = (vid \<in> fst ` set (items (controller_fetch c catalog)))"
    by (simp add: controller_contains_def map_of_eq_None_iff)
  also have "\<dots> = (\<exists>obj \<in> set catalog. obj_id obj = vid \<and> obj_type obj \<in> set (vantage_types c))"
    by (auto simp: controller_fetch_def keys_foldl_update)
  finally show ?thesis .
qed

lemma fetch_getitem:
  assumes "distinct (map obj_id catalog)" "obj \<in> set catalog"
    and "obj_type obj \<in> set (vantage_types c)"
  shows "controller_getitem (controller_fetch c catalog) (obj_id obj) = Inr obj"
proof -
  from assms have "obj \<in> set (filter (\<lambda>obj. obj_type obj \<in> set (vantage_types c)) catalog)"
    by simp
  from map_of_foldl_update_distinct [OF distinct_filter_ids [OF assms(1)] this]
  show ?thesis by (simp add: controller_getitem_def controller_fetch_def)
qed

lemma same_id_same_obj:
  "distinct (map obj_id catalog) \<Longrightarrow> a \<in> set catalog \<Longrightarrow> b \<in> set catalog \<Longrightarrow>
   obj_id a = obj_id b \<Longrightarrow> a = b"
  by (meson distinct_map inj_onD)


text \<open>
  What exclusivity rests on. \<open>Vantage.__getitem__\<close> itself takes the first controller that
  contains the id; that no second one does is not its doing. When the catalog gives every
  object its own id and no two controllers declare a common Vantage type, then after
  initialisation an id known to the registry is contained in exactly one controller, and
  \<open>Vantage[vid]\<close> returns the object held by that controller whatever the order in which
  the set of controllers is iterated. Of the twenty-one controllers that \<open>Vantage.__init__\<close>
  registers the sources hold three, so the second condition is established for those
  three only (\<open>small_types_disjoint\<close>).
\<close>

lemma exclusive_if_types_disjoint:
  assumes ids: "distinct (map obj_id catalog)"
    and types: "\<forall>i < length (controllers v0). \<forall>j < length (controllers v0). i \<noteq> j \<longrightarrow>
        set (vantage_types (controllers v0 ! i)) \<inter> set (vantage_types (controllers v0 ! j)) = {}"
    and known: "fst (Vantage_contains (Vantage_initialize v0 catalog) vid)"
  shows "\<exists>i obj. i < length (controllers (Vantage_initialize v0 catalog))
      \<and> (\<forall>j < length (controllers (Vantage_initialize v0 catalog)).
            controller_contains (controllers (Vantage_initialize v0 catalog) ! j) vid = (j = i))
      \<and> controller_getitem (controllers (Vantage_initialize v0 catalog) ! i) vid = Inr obj
      \<and> (\<forall>order. set order = set (controllers (Vantage_initialize v0 catalog)) \<longrightarrow>
            fst (Vantage_getitem \<lparr>controllers = order\<rparr> vid) = Inr obj)"
proof -
  define cs where "cs = controllers (Vantage_initialize v0 catalog)"
  have len: "length cs = length (controllers v0)"
    by (simp add: cs_def Vantage_initialize_def)
  have nth: "cs ! j = controller_fetch (controllers v0 ! j) catalog" if "j < length cs" for j
    using that by (simp add: cs_def Vantage_initialize_def)
  from known have "list_ex (\<lambda>c. controller_contains c vid) cs"
    by (simp add: Vantage_contains_def cs_def)
  then obtain i where i: "i < length cs" "controller_contains (cs ! i) vid"
    by (auto simp: list_ex_iff in_set_conv_nth)
  from i obtain obj where obj: "obj \<in> set catalog" "obj_id obj = vid"
      "obj_type obj \<in> set (vantage_types (controllers v0 ! i))"
    by (auto simp: nth fetch_contains_iff)
  have only: "j = i" if j: "j < length cs" "controller_contains (cs ! j) vid" for j
  proof (rule ccontr)
    assume "j \<noteq> i"
    from j obtain obj' where obj': "obj' \<in> set catalog" "obj_id obj' = vid"
        "obj_type obj' \<in> set (vantage_types (controllers v0 ! j))"
      by (auto simp: nth fetch_contains_iff)
    from same_id_same_obj [OF ids obj(1) obj'(1)] obj(2) obj'(2) have "obj = obj'" by simp
    with obj(3) obj'(3) have "obj_type obj \<in> set (vantage_types (controllers v0 ! i))
        \<inter> set (vantage_types (controllers v0 ! j))"
      by simp
    moreover from types i(1) j(1) len \<open>j \<noteq> i\<close>
    have "set (vantage_types (controllers v0 ! i)) \<inter> set (vantage_types (controllers v0 ! j)) = {}"
      by auto
    ultimately show False by simp
  qed
  have get: "controller_getitem (cs ! i) vid = Inr obj"
    using fetch_getitem [OF ids obj(1) obj(3)] obj(2) i(1) by (simp add: nth)
  have any_order: "fst (Vantage_getitem \<lparr>controllers = order\<rparr> vid) = Inr obj"
    if order: "set order = set cs" for order
  proof -
    from i order have "list_ex (\<lambda>c. controller_contains c vid) order"
      by (auto simp: list_ex_iff)
    from getitem_loop_some [OF this] obtain c obj' where c: "c \<in> set order"
        "controller_contains c vid" "controller_getitem c vid = Inr obj'"
        "getitem_loop order vid = Inr obj'"
      by blast
    from c(1) order obtain j where j: "j < length cs" "cs ! j = c"
      by (auto simp: in_set_conv_nth)
    with c(2) only have "j = i" by simp
    with j c(3) get have "obj' = obj" by simp
    with c(4) show ?thesis by (simp add: Vantage_getitem_def)
  qed
  from i(1) only i(2) get any_order show ?thesis
    unfolding cs_def [symmetric] by blast
qed

lemma exclusive_if_types_disjoint_small:
  "distinct (map obj_id small_catalog)
   \<and> fst (Vantage_contains (Vantage_initialize small_vantage small_catalog) 10)
   \<and> (\<exists>i obj. i < length (controllers (Vantage_initialize small_vantage small_catalog))
      \<and> (\<forall>j < length (controllers (Vantage_initialize small_vantage small_catalog)).
            controller_contains (controllers (Vantage_initialize small_vantage small_catalog) ! j) 10
              = (j = i))
      \<and> controller_getitem (controllers (Vantage_initialize small_vantage small_catalog) ! i) 10
          = Inr obj
      \<and> (\<forall>order. set order = set (controllers (Vantage_initialize small_vantage small_catalog)) \<longrightarrow>
            fst (Vantage_getitem \<lparr>controllers = order\<rparr> 10) = Inr obj))
   \<and> controller_getitem (controllers (Vantage_initialize small_vantage small_catalog) ! 2) 10
       = Inr temperature_10"
proof -
  have "controller_getitem (controllers (Vantage_initialize small_vantage small_catalog) ! 2) 10
       = Inr temperature_10"
    by (simp add: small_controllers controller_getitem_def TemperatureSensorsController_def)
  with small_ids_distinct small_known
    exclusive_if_types_disjoint [OF small_ids_distinct small_types_disjoint small_known]
  show ?thesis by blast
qed

subsection \<open>State updates\<close>

lemma update_attrs_step:
  "update_attrs a ((k, v) # p) =
     (if a k \<noteq> Some v
      then (fst (update_attrs (a(k \<mapsto> v)) p), (k, v) # snd (update_attrs (a(k \<mapsto> v)) p))
      else update_attrs a p)"
  by (simp add: case_prod_beta)

lemma update_attrs_writes:
  "distinct (map fst p) \<Longrightarrow> snd (update_attrs a p) = filter (\<lambda>(k, v). a k \<noteq> Some v) p"
proof (induction p arbitrary: a)
  case Nil
  then show ?case by simp
next
  case (Cons e p)
  obtain k v where e: "e = (k, v)" by (cases e)
  from Cons.prems e have fresh: "k \<notin> fst ` set p" and dist: "distinct (map fst p)" by auto
  show ?case
  proof (cases "a k = Some v")
    case True
    then show ?thesis by (simp add: e Cons.IH [OF dist])
  next
    case False
    have same: "filter (\<lambda>(k', v'). (a(k \<mapsto> v)) k' \<noteq> Some v') p
        = filter (\<lambda>(k', v'). a k' \<noteq> Some v') p"
    proof (rule filter_cong [OF refl])
      fix x
      assume "x \<in> set p"
      with fresh have "fst x \<noteq> k" by force
      then show "(case x of (k', v') \<Rightarrow> (a(k \<mapsto> v)) k' \<noteq> Some v')
          = (case x of (k', v') \<Rightarrow> a k' \<noteq> Some v')"
        by (cases x) simp
    qed
    have "snd (update_attrs a (e # p)) = (k, v) # snd (update_attrs (a(k \<mapsto> v)) p)"
      unfolding e update_attrs_step using False by simp
    also have "snd (update_attrs (a(k \<mapsto> v)) p)
        = filter (\<lambda>(k', v'). (a(k \<mapsto> v)) k' \<noteq> Some v') p"
      by (rule Cons.IH [OF dist])
    also note same
    finally show ?thesis using False by (simp add: e)
  qed
qed

lemma update_attrs_map:
  "distinct (map fst p) \<Longrightarrow> fst (update_attrs a p) = a ++ map_of (snd (update_attrs a p))"
proof (induction p arbitrary: a)
  case Nil
  then show ?case by simp
next
  case (Cons e p)
  obtain k v where e: "e = (k, v)" by (cases e)
  from Cons.prems e have fresh: "k \<notin> fst ` set p" and dist: "distinct (map fst p)" by auto
  show ?case
  proof (cases "a k = Some v")
    case True
    then show ?thesis using Cons.IH [OF dist, of a] by (simp add: e)
  next
    case False
    define ws where "ws = snd (update_attrs (a(k \<mapsto> v)) p)"
    have "fst ` set ws \<subseteq> fst ` set p"
      unfolding ws_def update_attrs_writes [OF dist] by auto
    with fresh have notin: "map_of ws k = None"
      by (auto simp: map_of_eq_None_iff)
    have ih: "fst (update_attrs (a(k \<mapsto> v)) p) = a(k \<mapsto> v) ++ map_of ws"
      unfolding ws_def by (rule Cons.IH [OF dist])
    have eq: "a(k \<mapsto> v) ++ map_of ws = a ++ map_of ((k, v) # ws)"
    proof
      fix x
      show "(a(k \<mapsto> v) ++ map_of ws) x = (a ++ map_of ((k, v) # ws)) x"
        using notin by (cases "x = k") (simp_all add: map_add_def split: option.splits)
    qed
    have "update_attrs a (e # p) = (fst (update_attrs (a(k \<mapsto> v)) p), (k, v) # ws)"
      unfolding e update_attrs_step ws_def using False by simp
    then have l: "fst (update_attrs a (e # p)) = fst (update_attrs (a(k \<mapsto> v)) p)"
      and r: "snd (update_attrs a (e # p)) = (k, v) # ws"
      by simp_all
    show ?thesis by (simp only: l r ih eq)
  qed
qed

lemma update_state_fields:
  "new_obj (update_state subs obj p) = obj\<lparr>attrs := fst (update_attrs (attrs obj) p)\<rparr>"
  "writes (update_state subs obj p) = snd (update_attrs (attrs obj) p)"
  "emitted (update_state subs obj p) =
     (if writes (update_state subs obj p) = [] then []
      else [\<lparr>note_obj = new_obj (update_state subs obj p),
             note_changed = map fst (writes (update_state subs obj p))\<rparr>])"
  "calls (update_state subs obj p) =
     (if writes (update_state subs obj p) = [] then []
      else map (\<lambda>s. (sub_callback s,
                  \<lparr>note_obj = new_obj (update_state subs obj p),
                   note_changed = map fst (writes (update_state subs obj p))\<rparr>))
             (filter (\<lambda>s. matching s (new_obj (update_state subs obj p))) subs))"
  by (simp_all add: update_state_def Let_def split: prod.splits)

lemma update_state_noop:
  "attrs obj a = Some same \<Longrightarrow> update_state subs obj [(a, same)] = unchanged obj"
  by (simp add: update_state_def unchanged_def)

lemma update_state_one_of_two:
  assumes "a \<noteq> b" "attrs obj a \<noteq> Some new" "attrs obj b = Some same"
  shows "writes (update_state subs obj [(a, new), (b, same)]) = [(a, new)]"
    and "attrs (new_obj (update_state subs obj [(a, new), (b, same)])) = (attrs obj)(a \<mapsto> new)"
    and "map note_changed (emitted (update_state subs obj [(a, new), (b, same)])) = [[a]]"
  using assms by (simp_all add: update_state_def Let_def)

lemma GMem_fetch_state_cases:
  "GMem_fetch_state self v =
     (if self ''value'' = Some v then (self, None) else (self(''value'' \<mapsto> v), Some [''value'']))"
  by (simp add: GMem_fetch_state_def update_property_def)

lemma CurrentSensor_other: "category \<noteq> ''CURRENT'' \<Longrightarrow>
   CurrentSensor_handle_category_status self category as = Inr (self, None)"
  by (simp add: CurrentSensor_handle_category_status_def)

lemma CurrentSensor_current: "Decimal a = Inr d \<Longrightarrow>
   CurrentSensor_handle_category_status self ''CURRENT'' (a # as) =
     Inr (if self ''current'' = Some d then (self, None)
          else (self(''current'' \<mapsto> d), Some ''current''))"
  by (simp add: CurrentSensor_handle_category_status_def py_index_def update_property_def)


lemma Decimal_1_5: "Decimal ''1.5'' = Inr (3 / 2)"
  by (simp add: Decimal_def strip_def is_space_def is_digit_def digit_val_def Let_def)


text \<open>
  C1: for an object and a partial update (a dictionary, so with distinct keys),
  \<open>update_state\<close> assigns exactly the entries whose new value differs from the cached
  one and leaves every other attribute as it was; it emits no notification when no
  entry differs, and otherwise exactly one, naming exactly the changed attributes,
  which every matching subscription receives once. So \<open>{k: sameValue}\<close> gives no
  notification and changes nothing, and \<open>{a: newValue, b: sameValue}\<close> gives exactly one
  notification whose changed attributes are \<open>[a]\<close>. In the same way
  \<open>GMemInterface.fetch_state\<close> reports \<open>["value"]\<close> only when the fetched value differs
  from the cached one, and \<open>CurrentSensorInterface.handle_category_status\<close> reports
  \<open>"current"\<close> only for a \<open>CURRENT\<close> status whose value differs.
\<close>

theorem update_state_dedup:
  assumes "distinct (map fst partial_attrs)"
  shows "(let r = update_state subs obj partial_attrs;
              note = \<lparr>note_obj = new_obj r, note_changed = map fst (writes r)\<rparr>
          in writes r = filter (\<lambda>(k, v). attrs obj k \<noteq> Some v) partial_attrs
           \<and> attrs (new_obj r) = attrs obj ++ map_of (writes r)
           \<and> obj_id (new_obj r) = obj_id obj \<and> obj_type (new_obj r) = obj_type obj
           \<and> emitted r = (if writes r = [] then [] else [note])
           \<and> calls r = (if writes r = [] then []
                else map (\<lambda>s. (sub_callback s, note)) (filter (\<lambda>s. matching s (new_obj r)) subs)))
     \<and> (attrs obj k = Some v \<longrightarrow> update_state subs obj [(k, v)] = unchanged obj)
     \<and> (a \<noteq> b \<and> attrs obj a \<noteq> Some new \<and> attrs obj b = Some same \<longrightarrow>
          writes (update_state subs obj [(a, new), (b, same)]) = [(a, new)]
        \<and> attrs (new_obj (update_state subs obj [(a, new), (b, same)])) = (attrs obj)(a \<mapsto> new)
        \<and> map note_changed (emitted (update_state subs obj [(a, new), (b, same)])) = [[a]])
     \<and> GMem_fetch_state self fetched =
         (if self ''value'' = Some fetched then (self, None)
          else (self(''value'' \<mapsto> fetched), Some [''value'']))
     \<and> (category \<noteq> ''CURRENT'' \<longrightarrow>
          CurrentSensor_handle_category_status sensor category as = Inr (sensor, None))
     \<and> (Decimal t = Inr d \<longrightarrow>
          CurrentSensor_handle_category_status sensor ''CURRENT'' (t # as) =
            Inr (if sensor ''current'' = Some d then (sensor, None)
                 else (sensor(''current'' \<mapsto> d), Some ''current'')))"
proof -
  have general: "let r = update_state subs obj partial_attrs;
              note = \<lparr>note_obj = new_obj r, note_changed = map fst (writes r)\<rparr>
          in writes r = filter (\<lambda>(k, v). attrs obj k \<noteq> Some v) partial_attrs
           \<and> attrs (new_obj r) = attrs obj ++ map_of (writes r)
           \<and> obj_id (new_obj r) = obj_id obj \<and> obj_type (new_obj r) = obj_type obj
           \<and> emitted r = (if writes r = [] then [] else [note])
           \<and> calls r = (if writes r = [] then []
                else map (\<lambda>s. (sub_callback s, note)) (filter (\<lambda>s. matching s (new_obj r)) subs))"
    unfolding Let_def
    using update_state_fields(3,4) [of subs obj partial_attrs]
    using update_attrs_map [OF assms, of "attrs obj"]
    by (simp add: update_state_fields(1,2) update_attrs_writes [OF assms])
  show ?thesis
    using general update_state_noop [of obj k v subs]
      update_state_one_of_two [of a b obj new same subs]
      GMem_fetch_state_cases [of self fetched]
      CurrentSensor_other [of category sensor as]
      CurrentSensor_current [of t d sensor as]
    by blast
qed


theorem update_state_dedup_witness:
  "distinct (map fst [(''a'', 5 :: int), (''b'', 2)])
   \<and> update_state [listener_7] two_attrs [(''a'', 1)] = unchanged two_attrs
   \<and> writes (update_state [listener_7] two_attrs [(''a'', 5), (''b'', 2)]) = [(''a'', 5)]
   \<and> map note_changed (emitted (update_state [listener_7] two_attrs [(''a'', 5), (''b'', 2)]))
       = [[''a'']]
   \<and> map fst (calls (update_state [listener_7] two_attrs [(''a'', 5), (''b'', 2)])) = [7]
   \<and> GMem_fetch_state [''value'' \<mapsto> GInt 3] (GInt 3) = ([''value'' \<mapsto> GInt 3], None)
   \<and> CurrentSensor_handle_category_status Map.empty ''TEMP'' [] = Inr (Map.empty, None)
   \<and> CurrentSensor_handle_category_status Map.empty ''CURRENT'' [''1.5'']
       = Inr ([''current'' \<mapsto> 3 / 2], Some ''current'')"
proof -
  have d: "distinct (map fst [(''a'', 5 :: int), (''b'', 2)])" by simp
  have a1: "attrs two_attrs ''a'' = Some 1" by (simp add: two_attrs_def)
  have a2: "''a'' \<noteq> ''b'' \<and> attrs two_attrs ''a'' \<noteq> Some 5 \<and> attrs two_attrs ''b'' = Some 2"
    by (simp add: two_attrs_def)
  have a3: "''TEMP'' \<noteq> ''CURRENT''" by simp
  note t = update_state_dedup [OF d, where subs = "[listener_7]" and obj = two_attrs
      and k = "''a''" and v = 1 and a = "''a''" and new = 5 and b = "''b''" and same = 2
      and self = "[''value'' \<mapsto> GInt 3]" and fetched = "GInt 3"
      and category = "''TEMP''" and sensor = Map.empty and as = "[]" and t = "''1.5''"
      and d = "3 / 2"]
  have c: "map fst (calls (update_state [listener_7] two_attrs [(''a'', 5), (''b'', 2)])) = [7]"
    using t a2 by (simp add: Let_def matching_def listener_7_def)
  from t a1 a2 a3 Decimal_1_5 d c show ?thesis by simp
qed

subsection \<open>Temperature status\<close>











end
